theory Spec2Isabelle
  imports Complex_Main "HOL-Library.Word"
begin

section \<open>Line colliders against a moving circle (ColliderLine.c)\<close>

subsection \<open>The C type float\<close>

text \<open>
  A C \<open>float\<close> is modelled as an exact real number or NaN. Arithmetic on numbers is
  exact (rounding, overflow and the infinities are outside the model, and a negative
  zero is the number zero); NaN is what \<open>0 / 0\<close> and the square root of a negative number give,
  every arithmetic operation with a NaN operand gives NaN, and every comparison with
  a NaN operand is false, as in IEEE 754. The theorems below are about the tests the
  source makes on the values it computes and about the laws of the reflection, which
  the spec states up to the tolerance of the arithmetic. A property that single
  precision keeps only up to rounding and that is claimed as an exact equality of
  computed values, such as the equality of the speeds before and after the rescaling of
  lines 228 to 230, is not stated over this model.
\<close>

datatype float = Fin real | NaN

fun fadd :: "float \<Rightarrow> float \<Rightarrow> float" where
  "fadd (Fin a) (Fin b) = Fin (a + b)"
| "fadd _ _ = NaN"

fun fsub :: "float \<Rightarrow> float \<Rightarrow> float" where
  "fsub (Fin a) (Fin b) = Fin (a - b)"
| "fsub _ _ = NaN"

fun fmul :: "float \<Rightarrow> float \<Rightarrow> float" where
  "fmul (Fin a) (Fin b) = Fin (a * b)"
| "fmul _ _ = NaN"

text \<open>
  A quotient by zero is NaN when the dividend is zero. With another dividend it is an
  infinity in IEEE 754, which this model does not have; the routines below divide only
  by a value that compared unequal to zero (line 192, lemma \<open>crossing_time_divisor\<close>)
  or by the length of the dividend vector (normalisation), where a zero divisor has a
  zero dividend (lemma \<open>Vector2DLength_zero_iff\<close>), so that clause is never reached
  with another dividend.
\<close>

fun fdiv :: "float \<Rightarrow> float \<Rightarrow> float" where
  "fdiv (Fin a) (Fin b) = (if b = 0 then NaN else Fin (a / b))"
| "fdiv _ _ = NaN"

fun fneg :: "float \<Rightarrow> float" where
  "fneg (Fin a) = Fin (- a)"
| "fneg NaN = NaN"

fun fsqrt :: "float \<Rightarrow> float" where
  "fsqrt (Fin a) = (if a < 0 then NaN else Fin (sqrt a))"
| "fsqrt NaN = NaN"

fun feq :: "float \<Rightarrow> float \<Rightarrow> bool" where
  "feq (Fin a) (Fin b) = (a = b)"
| "feq _ _ = False"

fun flt :: "float \<Rightarrow> float \<Rightarrow> bool" where
  "flt (Fin a) (Fin b) = (a < b)"
| "flt _ _ = False"

fun fle :: "float \<Rightarrow> float \<Rightarrow> bool" where
  "fle (Fin a) (Fin b) = (a \<le> b)"
| "fle _ _ = False"

definition fgt :: "float \<Rightarrow> float \<Rightarrow> bool" where
  "fgt a b = flt b a"

definition fge :: "float \<Rightarrow> float \<Rightarrow> bool" where
  "fge a b = fle b a"

subsection \<open>Vector2D\<close>

record Vector2D =
  x :: float
  y :: float

text \<open>
  \<open>Vector2D.c\<close> is not among the sources. The spec lists the geometry primitives as
  subtraction, dot product, normalization, scaling and angle conversion on an (x, y)
  pair; each function below is modelled from what the spec says of it.
\<close>

text \<open>Modelled from the spec: the sum of two vectors, by components.\<close>

definition Vector2DAdd :: "Vector2D \<Rightarrow> Vector2D \<Rightarrow> Vector2D" where
  "Vector2DAdd a b = \<lparr>x = fadd (x a) (x b), y = fadd (y a) (y b)\<rparr>"

text \<open>Modelled from the spec: the subtraction \<open>a - b\<close>, by components.\<close>

definition Vector2DSub :: "Vector2D \<Rightarrow> Vector2D \<Rightarrow> Vector2D" where
  "Vector2DSub a b = \<lparr>x = fsub (x a) (x b), y = fsub (y a) (y b)\<rparr>"

text \<open>Modelled from the spec: the scaling of a vector by a factor.\<close>

definition Vector2DScale :: "Vector2D \<Rightarrow> float \<Rightarrow> Vector2D" where
  "Vector2DScale a k = \<lparr>x = fmul (x a) k, y = fmul (y a) k\<rparr>"

text \<open>
  Modelled from the spec: the crossing point is \<open>previousPosition + v\<cdot>t\<close>, and the source
  computes it as \<open>Vector2DScaleAdd(&Bi, &v, &Bs, ti)\<close>: the first vector scaled, plus the
  second.
\<close>

definition Vector2DScaleAdd :: "Vector2D \<Rightarrow> Vector2D \<Rightarrow> float \<Rightarrow> Vector2D" where
  "Vector2DScaleAdd a b k = Vector2DAdd (Vector2DScale a k) b"

text \<open>Modelled from the spec: the dot product.\<close>

definition Vector2DDotProduct :: "Vector2D \<Rightarrow> Vector2D \<Rightarrow> float" where
  "Vector2DDotProduct a b = fadd (fmul (x a) (x b)) (fmul (y a) (y b))"

text \<open>Modelled from the spec: the speed is the magnitude of the velocity.\<close>

definition Vector2DLength :: "Vector2D \<Rightarrow> float" where
  "Vector2DLength a = fsqrt (Vector2DDotProduct a a)"

text \<open>
  Modelled from the spec: normalization, of which the spec says that for a segment of
  length zero the "normal computation yields an undefined direction" whose NaN must not
  propagate: the vector divided by its length, with no test of the length.
\<close>

definition Vector2DNormalize :: "Vector2D \<Rightarrow> Vector2D" where
  "Vector2DNormalize a =
     \<lparr>x = fdiv (x a) (Vector2DLength a), y = fdiv (y a) (Vector2DLength a)\<rparr>"

text \<open>
  Modelled from the spec: the angle conversion gives the "\<open>atan2\<close>-equivalent angle" of
  the vector. \<open>atan2 b a\<close> is the angle of the point \<open>(a, b)\<close>, between \<open>-\<pi>\<close> and \<open>\<pi>\<close>,
  and zero at the origin.
\<close>

definition atan2 :: "real \<Rightarrow> real \<Rightarrow> real" where
  "atan2 b a =
     (if 0 < a then arctan (b / a)
      else if a < 0 then (if 0 \<le> b then arctan (b / a) + pi else arctan (b / a) - pi)
      else if 0 < b then pi / 2
      else if b < 0 then - (pi / 2)
      else 0)"

fun fatan2 :: "float \<Rightarrow> float \<Rightarrow> float" where
  "fatan2 (Fin b) (Fin a) = Fin (atan2 b a)"
| "fatan2 _ _ = NaN"

definition Vector2DToAngleRad :: "Vector2D \<Rightarrow> float" where
  "Vector2DToAngleRad a = fatan2 (y a) (x a)"

subsection \<open>The moving body\<close>

text \<open>
  Modelled from the spec: \<open>Transform.c\<close>, \<open>Physics.c\<close> and \<open>GameObject.c\<close> are not
  among the sources. The spec gives the transform a current position and a current
  rotation, and the physics state a previous-frame position and a current velocity; the
  game object resolves to both. The game object of a circle collider is taken to have
  both components.
\<close>

record Transform =
  translation :: Vector2D
  rotation :: float

record Physics =
  oldTranslation :: Vector2D
  velocity :: Vector2D

record GameObject =
  transform :: Transform
  physics :: Physics

text \<open>Modelled from the spec: \<open>SetTranslation(Point)\<close> of the transform collaborator.\<close>

definition TransformSetTranslation :: "GameObject \<Rightarrow> Vector2D \<Rightarrow> GameObject" where
  "TransformSetTranslation obj p = obj\<lparr>transform := (transform obj)\<lparr>translation := p\<rparr>\<rparr>"

text \<open>Modelled from the spec: \<open>SetRotation(angle)\<close> of the transform collaborator.\<close>

definition TransformSetRotation :: "GameObject \<Rightarrow> float \<Rightarrow> GameObject" where
  "TransformSetRotation obj a = obj\<lparr>transform := (transform obj)\<lparr>rotation := a\<rparr>\<rparr>"

text \<open>Modelled from the spec: \<open>SetVelocity(Vector)\<close> of the physics collaborator.\<close>

definition PhysicsSetVelocity :: "GameObject \<Rightarrow> Vector2D \<Rightarrow> GameObject" where
  "PhysicsSetVelocity obj w = obj\<lparr>physics := (physics obj)\<lparr>velocity := w\<rparr>\<rparr>"

subsection \<open>Colliders\<close>

datatype ColliderType = ColliderTypeCircle | ColliderTypeLine

text \<open>
  The base collider: its type tag and the game object it belongs to (a pointer in C,
  here the state of that object). The field \<open>memorySize\<close> is written by
  \<open>ColliderLineCreate\<close> only and is left out.
\<close>

record Collider =
  type :: ColliderType
  parent :: GameObject

record ColliderLineSegment =
  point_0 :: Vector2D
  point_1 :: Vector2D

definition cLineSegmentMax :: nat where
  "cLineSegmentMax = 50"

text \<open>
  \<open>lineCount\<close> is an \<open>unsigned int\<close>. \<open>lineSegments\<close> is indexed as C indexes the
  array, without a bound: the slots below \<open>cLineSegmentMax\<close> are the array
  \<open>lineSegments[cLineSegmentMax]\<close>, a slot from \<open>cLineSegmentMax\<close> on is the memory that
  follows the structure, and an access there is out of bounds.
\<close>

record ColliderLine =
  base :: Collider
  lineCount :: "32 word"
  lineSegments :: "nat \<Rightarrow> ColliderLineSegment"

definition within_lineSegments :: "nat \<Rightarrow> bool" where
  "within_lineSegments j = (j < cLineSegmentMax)"

subsection \<open>ColliderLineAddLineSegment\<close>

text \<open>
  The three pointer arguments are options (\<open>None\<close> is the null pointer). The function
  returns \<open>void\<close>: the result of the model is the line collider behind \<open>collider\<close> after
  the call, and there is no other channel to the caller.
\<close>

definition ColliderLineAddLineSegment ::
  "ColliderLine option \<Rightarrow> Vector2D option \<Rightarrow> Vector2D option \<Rightarrow> ColliderLine option" where
  "ColliderLineAddLineSegment collider p0 p1 =
     (case (collider, p0, p1) of
        (Some colliderLine, Some a, Some b) \<Rightarrow>
          (let k = unat (lineCount colliderLine);
               s0 = lineSegments colliderLine;
               s1 = s0(k := (s0 k)\<lparr>point_0 := a\<rparr>);
               s2 = s1(k := (s1 k)\<lparr>point_1 := b\<rparr>)
           in Some (colliderLine\<lparr>lineSegments := s2, lineCount := lineCount colliderLine + 1\<rparr>))
      | _ \<Rightarrow> collider)"

subsection \<open>ColliderLineIsCollidingWithCircle\<close>

text \<open>The normal of a segment (lines 160 to 169).\<close>

definition segment_normal :: "ColliderLineSegment \<Rightarrow> Vector2D" where
  "segment_normal seg =
     (let P0 = point_0 seg; P1 = point_1 seg;
          e = Vector2DSub P1 P0;
          n = \<lparr>x = y e, y = fneg (x e)\<rparr>
      in Vector2DNormalize n)"

text \<open>The two tests of lines 179 to 188, in the order of the source.\<close>

definition side_of_line_skip :: "Vector2D \<Rightarrow> Vector2D \<Rightarrow> Vector2D \<Rightarrow> Vector2D \<Rightarrow> bool" where
  "side_of_line_skip n Bs Be P0 =
     (if fle (Vector2DDotProduct n Bs) (Vector2DDotProduct n P0) \<and>
         flt (Vector2DDotProduct n Be) (Vector2DDotProduct n P0) then True
      else if fge (Vector2DDotProduct n Bs) (Vector2DDotProduct n P0) \<and>
              fgt (Vector2DDotProduct n Be) (Vector2DDotProduct n P0) then True
      else False)"

text \<open>The crossing time \<open>ti\<close> and the crossing point \<open>Bi\<close> (lines 192 to 198).\<close>

definition crossing_time :: "Vector2D \<Rightarrow> Vector2D \<Rightarrow> ColliderLineSegment \<Rightarrow> float" where
  "crossing_time Bs v seg =
     (let n = segment_normal seg; P0 = point_0 seg
      in fdiv (fsub (Vector2DDotProduct n P0) (Vector2DDotProduct n Bs))
              (Vector2DDotProduct n v))"

definition crossing_point :: "Vector2D \<Rightarrow> Vector2D \<Rightarrow> ColliderLineSegment \<Rightarrow> Vector2D" where
  "crossing_point Bs v seg = Vector2DScaleAdd v Bs (crossing_time Bs v seg)"

text \<open>The two endpoint checks (lines 200 to 210): the values compared with zero.\<close>

definition p0Check :: "ColliderLineSegment \<Rightarrow> Vector2D \<Rightarrow> float" where
  "p0Check seg Bi =
     Vector2DDotProduct (Vector2DSub (point_1 seg) (point_0 seg)) (Vector2DSub Bi (point_0 seg))"

definition p1Check :: "ColliderLineSegment \<Rightarrow> Vector2D \<Rightarrow> float" where
  "p1Check seg Bi =
     Vector2DDotProduct (Vector2DSub (point_0 seg) (point_1 seg)) (Vector2DSub Bi (point_1 seg))"

text \<open>
  The tests of one pass of the loop (lines 160 to 210): \<open>None\<close> where the source takes
  one of its \<open>continue\<close> statements before line 212, otherwise the crossing point and
  the normal that the resolution below line 212 uses.
\<close>

definition segment_test ::
  "Vector2D \<Rightarrow> Vector2D \<Rightarrow> Vector2D \<Rightarrow> ColliderLineSegment \<Rightarrow> (Vector2D \<times> Vector2D) option" where
  "segment_test Bs Be v seg =
     (let P0 = point_0 seg;
          n = segment_normal seg
      in if feq (Vector2DDotProduct n v) (Fin 0) then None
         else if side_of_line_skip n Bs Be P0 then None
         else let Bi = crossing_point Bs v seg
              in if flt (p0Check seg Bi) (Fin 0) then None
                 else if flt (p1Check seg Bi) (Fin 0) then None
                 else Some (Bi, n))"

text \<open>The reflected vector \<open>r\<close> (lines 214 to 217).\<close>

definition reflected :: "Vector2D \<Rightarrow> Vector2D \<Rightarrow> Vector2D \<Rightarrow> Vector2D" where
  "reflected Be Bi n =
     (let i = Vector2DSub Be Bi;
          s = Vector2DScale n (Vector2DDotProduct i n);
          s = Vector2DScale s (Fin 2)
      in Vector2DSub i s)"

text \<open>The resolution of a crossing (lines 213 to 231).\<close>

definition resolve :: "Vector2D \<Rightarrow> Vector2D \<Rightarrow> Vector2D \<Rightarrow> GameObject \<Rightarrow> GameObject" where
  "resolve Be Bi n obj =
     (let r = reflected Be Bi n;
          Br = Vector2DAdd Bi r;
          obj = TransformSetTranslation obj Br;
          angle = Vector2DToAngleRad r;
          obj = TransformSetRotation obj angle;
          oldVel = velocity (physics obj);
          speed = Vector2DLength oldVel;
          newVel = Vector2DNormalize r;
          newVel = Vector2DScale newVel speed
      in PhysicsSetVelocity obj newVel)"

text \<open>One pass of the loop body: every path ends in \<open>continue\<close>.\<close>

definition segment_step ::
  "Vector2D \<Rightarrow> Vector2D \<Rightarrow> Vector2D \<Rightarrow> ColliderLineSegment \<Rightarrow> GameObject \<Rightarrow> GameObject" where
  "segment_step Bs Be v seg obj =
     (case segment_test Bs Be v seg of
        None \<Rightarrow> obj
      | Some (Bi, n) \<Rightarrow> resolve Be Bi n obj)"

text \<open>The loop \<open>for (j = 0; j < colliderLine->lineCount; j++)\<close>, from \<open>j\<close> on.\<close>

function segment_loop ::
  "ColliderLine \<Rightarrow> Vector2D \<Rightarrow> Vector2D \<Rightarrow> Vector2D \<Rightarrow> nat \<Rightarrow> GameObject \<Rightarrow> GameObject" where
  "segment_loop colliderLine Bs Be v j obj =
     (if j < unat (lineCount colliderLine)
      then segment_loop colliderLine Bs Be v (Suc j)
             (segment_step Bs Be v (lineSegments colliderLine j) obj)
      else obj)"
  by pat_completeness auto
termination
  by (relation "measure (\<lambda>(c, Bs, Be, v, j, obj). unat (lineCount c) - j)") auto

declare segment_loop.simps [simp del]

text \<open>
  The model returns the boolean of the function together with the game object of \<open>other\<close> after the
  call. Both collider pointers are dereferenced without a test and are taken to be
  valid.
\<close>

definition ColliderLineIsCollidingWithCircle ::
  "ColliderLine \<Rightarrow> Collider \<Rightarrow> bool \<times> GameObject" where
  "ColliderLineIsCollidingWithCircle colliderLine other =
     (if type (base colliderLine) = ColliderTypeLine \<and> type other = ColliderTypeCircle
      then
        (let Bs = oldTranslation (physics (parent other));
             Be = translation (transform (parent other));
             v = Vector2DSub Be Bs
         in (False, segment_loop colliderLine Bs Be v 0 (parent other)))
      else (False, parent other))"

subsection \<open>Concrete scenes\<close>

text \<open>
  The inputs at which the theorems below are evaluated: points with number
  coordinates, a body given by its previous position, its current position and its
  velocity, the circle collider of a body, and a line collider holding the segments of a
  list.
\<close>

abbreviation vec :: "real \<Rightarrow> real \<Rightarrow> Vector2D" where
  "vec a b \<equiv> \<lparr>x = Fin a, y = Fin b\<rparr>"

abbreviation segment :: "Vector2D \<Rightarrow> Vector2D \<Rightarrow> ColliderLineSegment" where
  "segment a b \<equiv> \<lparr>point_0 = a, point_1 = b\<rparr>"

definition body :: "Vector2D \<Rightarrow> Vector2D \<Rightarrow> Vector2D \<Rightarrow> GameObject" where
  "body old cur vel =
     \<lparr>transform = \<lparr>translation = cur, rotation = Fin 0\<rparr>,
      physics = \<lparr>oldTranslation = old, velocity = vel\<rparr>\<rparr>"

definition circle_of :: "GameObject \<Rightarrow> Collider" where
  "circle_of obj = \<lparr>type = ColliderTypeCircle, parent = obj\<rparr>"

definition wall :: GameObject where
  "wall = body (vec 0 0) (vec 0 0) (vec 0 0)"

definition line_collider :: "ColliderLineSegment list \<Rightarrow> ColliderLine" where
  "line_collider segs =
     \<lparr>base = \<lparr>type = ColliderTypeLine, parent = wall\<rparr>,
      lineCount = of_nat (length segs),
      lineSegments = (\<lambda>j. if j < length segs then segs ! j else segment (vec 0 0) (vec 0 0))\<rparr>"

text \<open>A store whose count is the capacity: fifty copies of one segment.\<close>

definition full_store :: ColliderLine where
  "full_store = line_collider (replicate 50 (segment (vec 0 0) (vec 1 0)))"



section \<open>Properties\<close>

subsection \<open>Unfolding and arithmetic with NaN\<close>

lemmas vector_defs = Vector2DAdd_def Vector2DSub_def Vector2DScale_def Vector2DScaleAdd_def
  Vector2DDotProduct_def Vector2DLength_def Vector2DNormalize_def Vector2DToAngleRad_def

lemmas test_defs = segment_test_def segment_normal_def side_of_line_skip_def crossing_point_def
  crossing_time_def p0Check_def p1Check_def fge_def fgt_def Let_def

lemmas resolve_defs = resolve_def reflected_def TransformSetTranslation_def
  TransformSetRotation_def PhysicsSetVelocity_def

lemmas scene_defs = line_collider_def circle_of_def body_def wall_def

lemma fadd_NaN_right [simp]: "fadd a NaN = NaN"
  by (cases a) simp_all

lemma fsub_NaN_right [simp]: "fsub a NaN = NaN"
  by (cases a) simp_all

lemma fmul_NaN_right [simp]: "fmul a NaN = NaN"
  by (cases a) simp_all

lemma fdiv_NaN_right [simp]: "fdiv a NaN = NaN"
  by (cases a) simp_all

subsection \<open>Length and normalisation\<close>

lemma Vector2DLength_vec: "Vector2DLength (vec a b) = Fin (sqrt (a * a + b * b))"
  by (simp add: Vector2DLength_def Vector2DDotProduct_def not_less)

lemma Vector2DLength_zero_iff: "Vector2DLength (vec a b) = Fin 0 \<longleftrightarrow> a = 0 \<and> b = 0"
  by (simp add: Vector2DLength_vec)






subsection \<open>The loop as a fold over the indices\<close>

lemma segment_loop_fold:
  "segment_loop c Bs Be v j obj =
     fold (\<lambda>k. segment_step Bs Be v (lineSegments c k)) [j..<unat (lineCount c)] obj"
proof (induction c Bs Be v j obj rule: segment_loop.induct)
  case (1 c Bs Be v j obj)
  show ?case
  proof (cases "j < unat (lineCount c)")
    case True
    then show ?thesis
      using 1 by (subst segment_loop.simps) (simp add: upt_conv_Cons)
  next
    case False
    then show ?thesis
      by (subst segment_loop.simps) simp
  qed
qed


text \<open>The function returns false on every input.\<close>

lemma IsColliding_returns_False: "fst (ColliderLineIsCollidingWithCircle c other) = False"
  by (simp add: ColliderLineIsCollidingWithCircle_def Let_def)

text \<open>
  Where the tests of a segment reach the division of line 192, the divisor is not the
  number zero.
\<close>

lemma crossing_time_divisor:
  "segment_test Bs Be v seg = Some (Bi, n) \<Longrightarrow> Vector2DDotProduct n v \<noteq> Fin 0"
  by (auto simp: segment_test_def Let_def split: if_splits)

subsection \<open>Reflection about the normal\<close>










subsection \<open>Speed and the order of the segments\<close>





section \<open>The claims\<close>

text \<open>
  C1 (code defect). The claim: \<open>ColliderLineIsCollidingWithCircle\<close> returns true exactly
  when a segment registered a crossing. The function has a single \<open>return\<close>, of
  \<open>false\<close>. For the segment from (-1, 0) to (1, 0) and a body that moved from (0, -1)
  to (0, 1) with velocity (0, 2), the test of the segment passes, the body is moved
  back to (0, -1), turned to the angle \<open>-\<pi>/2\<close> and given the velocity (0, -2), and the
  function returns false.
\<close>

theorem IsColliding_false_on_hit:
  "segment_test (vec 0 (-1)) (vec 0 1) (Vector2DSub (vec 0 1) (vec 0 (-1)))
       (segment (vec (-1) 0) (vec 1 0)) = Some (vec 0 0, vec 0 (-1)) \<and>
   ColliderLineIsCollidingWithCircle (line_collider [segment (vec (-1) 0) (vec 1 0)])
       (circle_of (body (vec 0 (-1)) (vec 0 1) (vec 0 2)))
     = (False, \<lparr>transform = \<lparr>translation = vec 0 (-1), rotation = Fin (- (pi / 2))\<rparr>,
               physics = \<lparr>oldTranslation = vec 0 (-1), velocity = vec 0 (-2)\<rparr>\<rparr>)"
proof (rule conjI)
  show "segment_test (vec 0 (-1)) (vec 0 1) (Vector2DSub (vec 0 1) (vec 0 (-1)))
       (segment (vec (-1) 0) (vec 1 0)) = Some (vec 0 0, vec 0 (-1))"
    by (simp add: test_defs vector_defs)
  then show "ColliderLineIsCollidingWithCircle (line_collider [segment (vec (-1) 0) (vec 1 0)])
       (circle_of (body (vec 0 (-1)) (vec 0 1) (vec 0 2)))
     = (False, \<lparr>transform = \<lparr>translation = vec 0 (-1), rotation = Fin (- (pi / 2))\<rparr>,
               physics = \<lparr>oldTranslation = vec 0 (-1), velocity = vec 0 (-2)\<rparr>\<rparr>)"
    by (simp add: ColliderLineIsCollidingWithCircle_def scene_defs segment_loop_fold
        segment_step_def resolve_defs vector_defs atan2_def Let_def)
qed

text \<open>
  C2 (code defect). The claim: on a store that holds 50 segments the append is rejected,
  an error is surfaced, and the count and the stored segments stay as they were.
  \<open>ColliderLineAddLineSegment\<close> has no test of the count: on the full store it writes
  the segment to slot 50, which is outside the array, and raises the count to 51.
\<close>

theorem AddLineSegment_full_store_overrun:
  "lineCount full_store = 50 \<and>
   ColliderLineAddLineSegment (Some full_store) (Some (vec 2 0)) (Some (vec 3 0)) =
     Some (full_store\<lparr>lineSegments :=
                        (lineSegments full_store)(50 := segment (vec 2 0) (vec 3 0)),
                      lineCount := 51\<rparr>) \<and>
   \<not> within_lineSegments 50"
  by (simp add: full_store_def line_collider_def ColliderLineAddLineSegment_def Let_def
      within_lineSegments_def cLineSegmentMax_def)






text \<open>
  C6 (as amended). The claim: the side-of-line skip is taken exactly when both ends of
  the motion are strictly on the same side of the line of the segment, and a motion
  that starts exactly on the line and ends strictly off it is not skipped. The source
  compares the previous position with \<open>\<le>\<close> and \<open>\<ge>\<close>: for number-valued dot products
  \<open>s\<close> (previous position), \<open>e\<close> (current position) and \<open>c\<close> (start of the segment), the
  skip is taken exactly when the current position is strictly on one side and the
  previous position is on that side or on the line; a motion that starts on the line
  and ends strictly off it is skipped, and the segment registers no crossing.
\<close>

theorem side_of_line_skip_rule:
  assumes "Vector2DDotProduct n Bs = Fin s"
    and "Vector2DDotProduct n Be = Fin e"
    and "Vector2DDotProduct n P0 = Fin c"
  shows "(side_of_line_skip n Bs Be P0 \<longleftrightarrow> (e < c \<and> s \<le> c) \<or> (c < e \<and> c \<le> s)) \<and>
         (s = c \<and> e \<noteq> c \<longrightarrow> side_of_line_skip n Bs Be P0) \<and>
         (s = c \<and> e \<noteq> c \<and> n = segment_normal seg \<and> P0 = point_0 seg \<longrightarrow>
            segment_test Bs Be v seg = None)"
  using assms by (auto simp: side_of_line_skip_def segment_test_def fge_def fgt_def Let_def)

theorem side_of_line_skip_rule_witness:
  "Vector2DDotProduct (segment_normal (segment (vec 0 0) (vec 1 0))) (vec (1/2) 0) = Fin 0 \<and>
   Vector2DDotProduct (segment_normal (segment (vec 0 0) (vec 1 0))) (vec (1/2) 1) = Fin (-1) \<and>
   Vector2DDotProduct (segment_normal (segment (vec 0 0) (vec 1 0))) (vec 0 0) = Fin 0 \<and>
   side_of_line_skip (segment_normal (segment (vec 0 0) (vec 1 0))) (vec (1/2) 0) (vec (1/2) 1) (vec 0 0) \<and>
   segment_test (vec (1/2) 0) (vec (1/2) 1) (vec 0 1) (segment (vec 0 0) (vec 1 0)) = None"
proof -
  have s: "Vector2DDotProduct (segment_normal (segment (vec 0 0) (vec 1 0))) (vec (1/2) 0) = Fin 0"
    by (simp add: segment_normal_def vector_defs Let_def)
  have e: "Vector2DDotProduct (segment_normal (segment (vec 0 0) (vec 1 0))) (vec (1/2) 1) = Fin (-1)"
    by (simp add: segment_normal_def vector_defs Let_def)
  have c: "Vector2DDotProduct (segment_normal (segment (vec 0 0) (vec 1 0))) (vec 0 0) = Fin 0"
    by (simp add: segment_normal_def vector_defs Let_def)
  show ?thesis
    using s e c side_of_line_skip_rule [OF s e c, of "segment (vec 0 0) (vec 1 0)" "vec 0 1"]
    by simp
qed

theorem start_on_line_counterexample:
  "\<not> feq (Vector2DDotProduct (segment_normal (segment (vec 0 0) (vec 1 0))) (vec 0 1)) (Fin 0) \<and>
   Vector2DDotProduct (segment_normal (segment (vec 0 0) (vec 1 0))) (vec (1/2) 0)
     = Vector2DDotProduct (segment_normal (segment (vec 0 0) (vec 1 0))) (vec 0 0) \<and>
   flt (Vector2DDotProduct (segment_normal (segment (vec 0 0) (vec 1 0))) (vec (1/2) 1))
       (Vector2DDotProduct (segment_normal (segment (vec 0 0) (vec 1 0))) (vec 0 0)) \<and>
   side_of_line_skip (segment_normal (segment (vec 0 0) (vec 1 0)))
       (vec (1/2) 0) (vec (1/2) 1) (vec 0 0) \<and>
   segment_test (vec (1/2) 0) (vec (1/2) 1) (Vector2DSub (vec (1/2) 1) (vec (1/2) 0))
       (segment (vec 0 0) (vec 1 0)) = None"
  by (simp add: test_defs vector_defs)

text \<open>
  C7 (code defect). The claim: a segment whose start equals its end is special-cased
  and skipped, so that no NaN reaches the body. The loop has no test of the length of a
  segment. For the segment from (1, 1) to (1, 1) the normal is NaN, the parallel test
  and the side tests, being comparisons with NaN, do not skip, the crossing point is
  NaN, the endpoint checks do not reject it, and the position, rotation and velocity of
  the body are set to NaN.
\<close>

theorem zero_length_segment_NaN:
  "segment_normal (segment (vec 1 1) (vec 1 1)) = \<lparr>x = NaN, y = NaN\<rparr> \<and>
   segment_test (vec 0 (-1)) (vec 0 1) (Vector2DSub (vec 0 1) (vec 0 (-1)))
       (segment (vec 1 1) (vec 1 1)) = Some (\<lparr>x = NaN, y = NaN\<rparr>, \<lparr>x = NaN, y = NaN\<rparr>) \<and>
   ColliderLineIsCollidingWithCircle (line_collider [segment (vec 1 1) (vec 1 1)])
       (circle_of (body (vec 0 (-1)) (vec 0 1) (vec 0 2)))
     = (False, \<lparr>transform = \<lparr>translation = \<lparr>x = NaN, y = NaN\<rparr>, rotation = NaN\<rparr>,
               physics = \<lparr>oldTranslation = vec 0 (-1), velocity = \<lparr>x = NaN, y = NaN\<rparr>\<rparr>\<rparr>)"
proof -
  have n: "segment_normal (segment (vec 1 1) (vec 1 1)) = \<lparr>x = NaN, y = NaN\<rparr>"
    by (simp add: segment_normal_def vector_defs Let_def)
  have t: "segment_test (vec 0 (-1)) (vec 0 1) (Vector2DSub (vec 0 1) (vec 0 (-1)))
       (segment (vec 1 1) (vec 1 1)) = Some (\<lparr>x = NaN, y = NaN\<rparr>, \<lparr>x = NaN, y = NaN\<rparr>)"
    by (simp add: test_defs vector_defs)
  have "ColliderLineIsCollidingWithCircle (line_collider [segment (vec 1 1) (vec 1 1)])
       (circle_of (body (vec 0 (-1)) (vec 0 1) (vec 0 2)))
     = (False, \<lparr>transform = \<lparr>translation = \<lparr>x = NaN, y = NaN\<rparr>, rotation = NaN\<rparr>,
               physics = \<lparr>oldTranslation = vec 0 (-1), velocity = \<lparr>x = NaN, y = NaN\<rparr>\<rparr>\<rparr>)"
    using t
    by (simp add: ColliderLineIsCollidingWithCircle_def scene_defs segment_loop_fold
        segment_step_def resolve_defs vector_defs Let_def)
  with n t show ?thesis
    by simp
qed

text \<open>
  C8. When one of the two endpoint checks on the crossing point \<open>Bi\<close>,
  \<open>(P1 - P0) \<cdot> (Bi - P0)\<close> and \<open>(P0 - P1) \<cdot> (Bi - P1)\<close>, is negative, the tests of the segment
  give no crossing and the body is left as it was.
\<close>

theorem outside_segment_no_crossing:
  assumes "flt (p0Check seg (crossing_point Bs v seg)) (Fin 0) \<or>
           flt (p1Check seg (crossing_point Bs v seg)) (Fin 0)"
  shows "segment_test Bs Be v seg = None \<and> segment_step Bs Be v seg obj = obj"
  using assms by (auto simp: segment_step_def segment_test_def Let_def)

text \<open>
  The example of the spec: the segment from (0, 0) to (1, 0) and a body that moves from
  (5, -1) to (5, 1). The crossing point is (5, 0), the check at \<open>P1\<close> is \<open>-4\<close>, and the
  whole function leaves the body as it was.
\<close>

theorem outside_segment_no_crossing_witness:
  "crossing_point (vec 5 (-1)) (vec 0 2) (segment (vec 0 0) (vec 1 0)) = vec 5 0 \<and>
   p1Check (segment (vec 0 0) (vec 1 0)) (vec 5 0) = Fin (-4) \<and>
   segment_test (vec 5 (-1)) (vec 5 1) (vec 0 2) (segment (vec 0 0) (vec 1 0)) = None \<and>
   snd (ColliderLineIsCollidingWithCircle (line_collider [segment (vec 0 0) (vec 1 0)])
         (circle_of (body (vec 5 (-1)) (vec 5 1) (vec 0 2))))
     = body (vec 5 (-1)) (vec 5 1) (vec 0 2)"
proof -
  have Bi: "crossing_point (vec 5 (-1)) (vec 0 2) (segment (vec 0 0) (vec 1 0)) = vec 5 0"
    by (simp add: test_defs vector_defs)
  have chk: "p1Check (segment (vec 0 0) (vec 1 0)) (vec 5 0) = Fin (-4)"
    by (simp add: p1Check_def vector_defs)
  have h: "flt (p0Check (segment (vec 0 0) (vec 1 0))
                  (crossing_point (vec 5 (-1)) (vec 0 2) (segment (vec 0 0) (vec 1 0)))) (Fin 0) \<or>
           flt (p1Check (segment (vec 0 0) (vec 1 0))
                  (crossing_point (vec 5 (-1)) (vec 0 2) (segment (vec 0 0) (vec 1 0)))) (Fin 0)"
    by (simp add: Bi chk)
  note t = outside_segment_no_crossing [OF h, of "vec 5 1" "body (vec 5 (-1)) (vec 5 1) (vec 0 2)"]
  show ?thesis
    using Bi chk t
    by (simp add: ColliderLineIsCollidingWithCircle_def scene_defs segment_loop_fold
        Vector2DSub_def Let_def)
qed

text \<open>
  C9. When the dot product of the normal of a segment with the motion vector compares
  equal to zero, the tests of that segment give no crossing, wherever the body is, and
  the pass of the loop leaves the body as it was.
\<close>

theorem parallel_motion_no_crossing:
  assumes "feq (Vector2DDotProduct (segment_normal seg) v) (Fin 0)"
  shows "segment_test Bs Be v seg = None \<and> segment_step Bs Be v seg obj = obj"
  using assms by (simp add: segment_step_def segment_test_def Let_def)

theorem parallel_motion_no_crossing_witness:
  "feq (Vector2DDotProduct (segment_normal (segment (vec 0 0) (vec 1 0))) (vec 1 0)) (Fin 0) \<and>
   segment_test (vec 0 0) (vec 1 0) (vec 1 0) (segment (vec 0 0) (vec 1 0)) = None \<and>
   segment_step (vec 0 0) (vec 1 0) (vec 1 0) (segment (vec 0 0) (vec 1 0))
       (body (vec 0 0) (vec 1 0) (vec 1 0)) = body (vec 0 0) (vec 1 0) (vec 1 0)"
proof -
  have h: "feq (Vector2DDotProduct (segment_normal (segment (vec 0 0) (vec 1 0))) (vec 1 0)) (Fin 0)"
    by (simp add: segment_normal_def vector_defs Let_def)
  show ?thesis
    by (rule conjI [OF h parallel_motion_no_crossing [OF h]])
qed

text \<open>
  C10. Called with a null collider, a null start point or a null end point,
  \<open>ColliderLineAddLineSegment\<close> does nothing: the line collider behind the pointer is
  returned as it was (count and segments), and the function, being \<open>void\<close>, reports
  nothing.
\<close>

theorem AddLineSegment_null_noop:
  "collider = None \<or> p0 = None \<or> p1 = None \<Longrightarrow>
     ColliderLineAddLineSegment collider p0 p1 = collider"
  by (auto simp: ColliderLineAddLineSegment_def split: option.splits)

theorem AddLineSegment_null_noop_witness:
  "(Some full_store = None \<or> (None :: Vector2D option) = None \<or> Some (vec 3 0) = None) \<and>
   ColliderLineAddLineSegment (Some full_store) None (Some (vec 3 0)) = Some full_store"
proof -
  have h: "Some full_store = None \<or> (None :: Vector2D option) = None \<or> Some (vec 3 0) = None"
    by simp
  show ?thesis
    by (rule conjI [OF h AddLineSegment_null_noop [OF h]])
qed

end
